theory Spec2Isabelle
  imports Main "HOL-Library.Word" "HOL-Library.Sublist"
begin

section \<open>Values exchanged with the external libraries\<close>

text \<open>
  The notebook \<^verbatim>\<open>notebooks/load_pretrained_timm.ipynb\<close> is a sequence of calls into
  timm, tfimm, torch, keras and the Python runtime. The notebook never computes on a
  tensor element, so an element is kept as the 32 bits of its float.
\<close>

type_synonym f32 = "32 word"

datatype error =
    NameError string
  | RuntimeError string
  | LibraryError string

text \<open>
  A torch tensor is a view on a flat buffer: \<^verbatim>\<open>permute\<close> returns a view with the same
  buffer and reordered sizes and strides, and \<^verbatim>\<open>numpy()\<close> returns an array on the same
  memory. The array of numpy is the same kind of view, so one record serves both.
\<close>

record tensor =
  storage :: "nat \<Rightarrow> f32"
  offset :: nat
  shape :: "nat list"
  strides :: "nat list"
  requires_grad :: bool

type_synonym ndarray = tensor

fun contiguous_strides :: "nat list \<Rightarrow> nat list" where
  "contiguous_strides [] = []"
| "contiguous_strides (d # ds) = prod_list ds # contiguous_strides ds"

text \<open>Indexing \<^verbatim>\<open>t[i0, i1, ...]\<close> with one index for each axis; out of range is no element.\<close>

definition element :: "tensor \<Rightarrow> nat list \<Rightarrow> f32 option" where
  "element t idx =
     (if length idx = length (shape t) \<and> list_all2 (<) idx (shape t)
      then Some (storage t (offset t + sum_list (map2 (*) idx (strides t))))
      else None)"

text \<open>
  The tensor that \<^verbatim>\<open>torch.rand(size)\<close> returns: contiguous, over the buffer the generator
  drew, not requiring grad. Whether the library accepts the sizes is part of its answer
  (\<open>torch_rand\<close> below).
\<close>

definition new_tensor :: "int list \<Rightarrow> (nat \<Rightarrow> f32) \<Rightarrow> tensor" where
  "new_tensor sizes buf =
     \<lparr>storage = buf, offset = 0, shape = map nat sizes,
      strides = contiguous_strides (map nat sizes), requires_grad = False\<rparr>"

text \<open>\<^verbatim>\<open>t.permute(*dims)\<close>: axis \<open>k\<close> of the result is axis \<open>dims ! k\<close> of \<open>t\<close>.\<close>

definition permute :: "tensor \<Rightarrow> nat list \<Rightarrow> error + tensor" where
  "permute t dims =
     (if length dims = length (shape t) \<and> distinct dims \<and> (\<forall>d \<in> set dims. d < length (shape t))
      then Inr (t\<lparr>shape := map (\<lambda>d. shape t ! d) dims,
                  strides := map (\<lambda>d. strides t ! d) dims\<rparr>)
      else Inl (RuntimeError ''permute: dims do not match the axes''))"

definition detach :: "tensor \<Rightarrow> tensor" where
  "detach t = t\<lparr>requires_grad := False\<rparr>"

text \<open>\<^verbatim>\<open>t.numpy()\<close> raises on a tensor that requires grad.\<close>

definition numpy :: "tensor \<Rightarrow> error + ndarray" where
  "numpy t =
     (if requires_grad t then Inl (RuntimeError ''numpy() on a tensor that requires grad'')
      else Inr t)"

text \<open>
  A model object of either library is opaque to the notebook. What is kept of it: its
  parameters, and a number standing for the rest of its internal state (mode flags,
  buffers, compiled functions).
\<close>

datatype tmodel = TModel (t_weights: "f32 list") (t_internal: nat)

datatype kmodel = KModel (k_weights: "f32 list") (k_internal: nat)

text \<open>
  The external libraries, as they behave during one run. Each entry answers one call of
  the notebook with an exception or a result.
  \<^item> Importing a module runs the module's code in the process: it can read the
    environment and it can set variables (importing tensorflow sets \<^verbatim>\<open>TF2_BEHAVIOR\<close>,
    importing torch sets \<^verbatim>\<open>TORCHINDUCTOR_CACHE_DIR\<close>). The answer of an import is the
    variables the module set.
  \<^item> The conversion returns the new keras model, and the torch model as it leaves it,
    since Python passes the object by reference.
  \<^item> Calling the torch model and \<^verbatim>\<open>predict\<close> are inference: they compute the output
    from the input and the parameters, and assign no parameter. What they can change is
    the rest of the object (caches, counters, the compiled predict function); their
    answer is the output and that rest.
\<close>

record lib =
  os_putenv :: "string \<Rightarrow> string \<Rightarrow> error + unit"
  import_module :: "string \<Rightarrow> (string \<rightharpoonup> string) \<Rightarrow> error + (string \<rightharpoonup> string)"
  timm_create_model :: "string \<Rightarrow> int \<Rightarrow> bool \<Rightarrow> error + tmodel"
  tfimm_load_timm_model :: "string \<Rightarrow> int \<Rightarrow> tmodel \<Rightarrow> error + kmodel \<times> tmodel"
  torch_rand :: "int list \<Rightarrow> error + (nat \<Rightarrow> f32)"
  torch_forward :: "tmodel \<Rightarrow> tensor \<Rightarrow> error + tensor \<times> nat"
  keras_predict :: "kmodel \<Rightarrow> ndarray \<Rightarrow> error + ndarray \<times> nat"
  py_print :: "ndarray \<Rightarrow> error + unit"
  keras_save :: "kmodel \<Rightarrow> string \<Rightarrow> string \<Rightarrow> error + unit"

text \<open>The calls into the libraries, with the arguments they receive.\<close>

datatype call =
    CSetEnv string string
  | CImport string "string \<rightharpoonup> string"
  | CCreateModel string int bool
  | CLoadTimmModel string int tmodel
  | CRand "int list"
  | CForward tmodel tensor
  | CPredict kmodel ndarray
  | CPrint ndarray
  | CSave kmodel string string

section \<open>The notebook's process\<close>

text \<open>
  The kernel's state: the process environment, the module names bound by
  \<^verbatim>\<open>import\<close>, the notebook's global variables (unbound is \<open>None\<close>), what was
  printed, what was saved (path to format and model), and the calls made so far.
\<close>

record nstate =
  environ :: "string \<rightharpoonup> string"
  modules :: "string \<rightharpoonup> string"
  TIMM_MODEL_NAME :: "string option"
  N_CLASSES :: "int option"
  IMG_DIM :: "int option"
  timm_model :: "tmodel option"
  keras_model :: "kmodel option"
  sample_input :: "tensor option"
  torch_output :: "ndarray option"
  keras_output :: "ndarray option"
  stdout :: "ndarray list"
  disk :: "string \<rightharpoonup> string \<times> kmodel"
  calls :: "call list"

definition fresh_kernel :: "(string \<rightharpoonup> string) \<Rightarrow> (string \<rightharpoonup> string \<times> kmodel) \<Rightarrow> nstate" where
  "fresh_kernel env dsk =
     \<lparr>environ = env, modules = Map.empty, TIMM_MODEL_NAME = None, N_CLASSES = None,
      IMG_DIM = None, timm_model = None, keras_model = None, sample_input = None,
      torch_output = None, keras_output = None, stdout = [], disk = dsk, calls = []\<rparr>"

text \<open>A computation either raises or returns, and leaves a state in both cases.\<close>

type_synonym 'a nb = "nstate \<Rightarrow> (error + 'a) \<times> nstate"

definition return_nb :: "'a \<Rightarrow> 'a nb" where
  "return_nb x = (\<lambda>s. (Inr x, s))"

definition bind_nb :: "'a nb \<Rightarrow> ('a \<Rightarrow> 'b nb) \<Rightarrow> 'b nb" where
  "bind_nb m f = (\<lambda>s. case m s of (Inl e, s') \<Rightarrow> (Inl e, s') | (Inr x, s') \<Rightarrow> f x s')"

definition lift_nb :: "error + 'a \<Rightarrow> 'a nb" where
  "lift_nb r = (\<lambda>s. (r, s))"

definition modify_nb :: "(nstate \<Rightarrow> nstate) \<Rightarrow> unit nb" where
  "modify_nb f = (\<lambda>s. (Inr (), f s))"

text \<open>Reading a global name: \<^verbatim>\<open>NameError\<close> when it is not bound.\<close>

definition load_name :: "string \<Rightarrow> (nstate \<Rightarrow> 'a option) \<Rightarrow> 'a nb" where
  "load_name x var =
     (\<lambda>s. case var s of None \<Rightarrow> (Inl (NameError x), s) | Some v \<Rightarrow> (Inr v, s))"

text \<open>A call into a library: it is recorded, then it raises or returns.\<close>

definition library_call :: "call \<Rightarrow> error + 'a \<Rightarrow> 'a nb" where
  "library_call c r = (\<lambda>s. (r, s\<lparr>calls := calls s @ [c]\<rparr>))"

text \<open>Statements one after the other; the first exception ends the sequence.\<close>

fun seq_nb :: "unit nb list \<Rightarrow> unit nb" where
  "seq_nb [] = return_nb ()"
| "seq_nb (m # ms) = bind_nb m (\<lambda>_. seq_nb ms)"

subsection \<open>Statements\<close>

text \<open>
  The environment after a module's code has set the variables \<open>w\<close>. The modules imported
  here read \<^verbatim>\<open>TF_CPP_MIN_LOG_LEVEL\<close> and none of them assigns it, so this variable keeps
  its value; every other variable can be set.
\<close>

definition module_writes :: "(string \<rightharpoonup> string) \<Rightarrow> (string \<rightharpoonup> string) \<Rightarrow> (string \<rightharpoonup> string)" where
  "module_writes env w =
     (\<lambda>k. if k = ''TF_CPP_MIN_LOG_LEVEL'' then env k else (env ++ w) k)"

text \<open>\<^verbatim>\<open>import m\<close> or \<^verbatim>\<open>import m as x\<close>: the module's code runs in the process, where it
  reads and writes the environment, then the name is bound.\<close>

definition import_as :: "lib \<Rightarrow> string \<Rightarrow> string \<Rightarrow> unit nb" where
  "import_as L m x =
     bind_nb (\<lambda>s. (Inr (environ s), s)) (\<lambda>env.
     bind_nb (library_call (CImport m env) (import_module L m env)) (\<lambda>w.
     modify_nb (\<lambda>s. s\<lparr>environ := module_writes (environ s) w,
                         modules := (modules s)(x \<mapsto> m)\<rparr>)))"

text \<open>\<^verbatim>\<open>os.environ[k] = v\<close>\<close>

definition environ_setitem :: "lib \<Rightarrow> string \<Rightarrow> string \<Rightarrow> unit nb" where
  "environ_setitem L k v =
     bind_nb (load_name ''os'' (\<lambda>s. modules s ''os'')) (\<lambda>_.
     bind_nb (library_call (CSetEnv k v) (os_putenv L k v)) (\<lambda>_.
     modify_nb (\<lambda>s. s\<lparr>environ := (environ s)(k \<mapsto> v)\<rparr>)))"

text \<open>First code cell (source lines 23 to 29).\<close>

definition cell_imports :: "lib \<Rightarrow> unit nb" where
  "cell_imports L =
     seq_nb [import_as L ''os'' ''os'',
             environ_setitem L ''TF_CPP_MIN_LOG_LEVEL'' ''3'',
             import_as L ''timm'' ''timm'',
             import_as L ''tfimm'' ''tfimm'',
             import_as L ''tensorflow'' ''tf'',
             import_as L ''torch'' ''torch'']"

text \<open>Second code cell (lines 46 to 48).\<close>

definition cell_parameters :: "unit nb" where
  "cell_parameters =
     seq_nb [modify_nb (\<lambda>s. s\<lparr>TIMM_MODEL_NAME := Some ''vit_tiny_patch16_224''\<rparr>),
             modify_nb (\<lambda>s. s\<lparr>N_CLASSES := Some 5\<rparr>),
             modify_nb (\<lambda>s. s\<lparr>IMG_DIM := Some 224\<rparr>)]"

text \<open>Third code cell (line 64):
  \<^verbatim>\<open>timm_model = timm.create_model(model_name=TIMM_MODEL_NAME, num_classes=N_CLASSES, pretrained=True)\<close>\<close>

definition cell_create :: "lib \<Rightarrow> unit nb" where
  "cell_create L =
     bind_nb (load_name ''timm'' (\<lambda>s. modules s ''timm'')) (\<lambda>_.
     bind_nb (load_name ''TIMM_MODEL_NAME'' TIMM_MODEL_NAME) (\<lambda>name.
     bind_nb (load_name ''N_CLASSES'' N_CLASSES) (\<lambda>n.
     bind_nb (library_call (CCreateModel name n True) (timm_create_model L name n True)) (\<lambda>m.
     modify_nb (\<lambda>s. s\<lparr>timm_model := Some m\<rparr>)))))"

text \<open>Fourth code cell (line 80):
  \<^verbatim>\<open>keras_model = tfimm.load_timm_model(TIMM_MODEL_NAME, nb_classes=N_CLASSES, pt_model=timm_model)\<close>\<close>

definition cell_convert :: "lib \<Rightarrow> unit nb" where
  "cell_convert L =
     bind_nb (load_name ''tfimm'' (\<lambda>s. modules s ''tfimm'')) (\<lambda>_.
     bind_nb (load_name ''TIMM_MODEL_NAME'' TIMM_MODEL_NAME) (\<lambda>name.
     bind_nb (load_name ''N_CLASSES'' N_CLASSES) (\<lambda>n.
     bind_nb (load_name ''timm_model'' timm_model) (\<lambda>pt.
     bind_nb (library_call (CLoadTimmModel name n pt) (tfimm_load_timm_model L name n pt))
       (\<lambda>(km, pt').
     modify_nb (\<lambda>s. s\<lparr>timm_model := Some pt', keras_model := Some km\<rparr>))))))"

text \<open>Fifth code cell, line 96: \<^verbatim>\<open>sample_input = torch.rand((2,3,IMG_DIM,IMG_DIM))\<close>\<close>

definition stmt_sample_input :: "lib \<Rightarrow> unit nb" where
  "stmt_sample_input L =
     bind_nb (load_name ''torch'' (\<lambda>s. modules s ''torch'')) (\<lambda>_.
     bind_nb (load_name ''IMG_DIM'' IMG_DIM) (\<lambda>d1.
     bind_nb (load_name ''IMG_DIM'' IMG_DIM) (\<lambda>d2.
     bind_nb (library_call (CRand [2, 3, d1, d2]) (torch_rand L [2, 3, d1, d2])) (\<lambda>buf.
     modify_nb (\<lambda>s. s\<lparr>sample_input := Some (new_tensor [2, 3, d1, d2] buf)\<rparr>)))))"

text \<open>Line 97: \<^verbatim>\<open>torch_output = timm_model(sample_input).detach().numpy()\<close>\<close>

definition stmt_torch_output :: "lib \<Rightarrow> unit nb" where
  "stmt_torch_output L =
     bind_nb (load_name ''timm_model'' timm_model) (\<lambda>m.
     bind_nb (load_name ''sample_input'' sample_input) (\<lambda>x.
     bind_nb (library_call (CForward m x) (torch_forward L m x)) (\<lambda>(y, i).
     bind_nb (modify_nb (\<lambda>s. s\<lparr>timm_model := Some (TModel (t_weights m) i)\<rparr>)) (\<lambda>_.
     bind_nb (lift_nb (numpy (detach y))) (\<lambda>out.
     modify_nb (\<lambda>s. s\<lparr>torch_output := Some out\<rparr>))))))"

text \<open>Line 98: \<^verbatim>\<open>keras_output = keras_model.predict(sample_input.permute(0,2,3,1).numpy())\<close>\<close>

definition stmt_keras_output :: "lib \<Rightarrow> unit nb" where
  "stmt_keras_output L =
     bind_nb (load_name ''keras_model'' keras_model) (\<lambda>m.
     bind_nb (load_name ''sample_input'' sample_input) (\<lambda>x.
     bind_nb (lift_nb (permute x [0, 2, 3, 1])) (\<lambda>p.
     bind_nb (lift_nb (numpy p)) (\<lambda>a.
     bind_nb (library_call (CPredict m a) (keras_predict L m a)) (\<lambda>(out, i).
     bind_nb (modify_nb (\<lambda>s. s\<lparr>keras_model := Some (KModel (k_weights m) i)\<rparr>)) (\<lambda>_.
     modify_nb (\<lambda>s. s\<lparr>keras_output := Some out\<rparr>)))))))"

definition cell_test :: "lib \<Rightarrow> unit nb" where
  "cell_test L = seq_nb [stmt_sample_input L, stmt_torch_output L, stmt_keras_output L]"

text \<open>Sixth code cell (lines 107 and 108): \<^verbatim>\<open>print(torch_output)\<close>, \<^verbatim>\<open>print(keras_output)\<close>\<close>

definition print_stmt :: "lib \<Rightarrow> string \<Rightarrow> (nstate \<Rightarrow> ndarray option) \<Rightarrow> unit nb" where
  "print_stmt L x var =
     bind_nb (load_name x var) (\<lambda>a.
     bind_nb (library_call (CPrint a) (py_print L a)) (\<lambda>_.
     modify_nb (\<lambda>s. s\<lparr>stdout := stdout s @ [a]\<rparr>)))"

definition cell_print :: "lib \<Rightarrow> unit nb" where
  "cell_print L =
     seq_nb [print_stmt L ''torch_output'' torch_output,
             print_stmt L ''keras_output'' keras_output]"

text \<open>Seventh code cell (line 124):
  \<^verbatim>\<open>keras_model.save(filepath=f'keras_{TIMM_MODEL_NAME}', save_format='tf')\<close>\<close>

definition cell_save :: "lib \<Rightarrow> unit nb" where
  "cell_save L =
     bind_nb (load_name ''keras_model'' keras_model) (\<lambda>m.
     bind_nb (load_name ''TIMM_MODEL_NAME'' TIMM_MODEL_NAME) (\<lambda>name.
     bind_nb (library_call (CSave m (''keras_'' @ name) ''tf'')
                (keras_save L m (''keras_'' @ name) ''tf'')) (\<lambda>_.
     modify_nb (\<lambda>s. s\<lparr>disk := (disk s)(''keras_'' @ name \<mapsto> (''tf'', m))\<rparr>))))"

text \<open>The notebook, its code cells run from top to bottom in a fresh kernel.\<close>

definition notebook :: "lib \<Rightarrow> unit nb" where
  "notebook L =
     seq_nb [cell_imports L, cell_parameters, cell_create L, cell_convert L,
             cell_test L, cell_print L, cell_save L]"

definition run_notebook ::
  "lib \<Rightarrow> (string \<rightharpoonup> string) \<Rightarrow> (string \<rightharpoonup> string \<times> kmodel) \<Rightarrow> (error + unit) \<times> nstate" where
  "run_notebook L env dsk = notebook L (fresh_kernel env dsk)"

section \<open>What a run leaves behind\<close>

text \<open>
  What can be seen of a run from outside: how it ended, the environment, what was
  printed, what is on disk, the two model objects, and the calls made, in order.
\<close>

type_synonym obs =
  "(error + unit) \<times> (string \<rightharpoonup> string) \<times> ndarray list \<times> (string \<rightharpoonup> string \<times> kmodel)
     \<times> tmodel option \<times> kmodel option \<times> call list"

fun observe :: "(error + unit) \<times> nstate \<Rightarrow> obs" where
  "observe (r, s) = (r, environ s, stdout s, disk s, timm_model s, keras_model s, calls s)"

fun logged :: "call \<Rightarrow> obs \<Rightarrow> obs" where
  "logged c (r, e, out, d, tm, km, cs) = (r, e, out, d, tm, km, c # cs)"

text \<open>The environment after the assignment of line 24.\<close>

definition with_log_level :: "(string \<rightharpoonup> string) \<Rightarrow> (string \<rightharpoonup> string)" where
  "with_log_level env = env(''TF_CPP_MIN_LOG_LEVEL'' \<mapsto> ''3'')"

text \<open>The tensor of line 96 over a drawn buffer, and its view with the channels last.\<close>

definition sample_tensor :: "(nat \<Rightarrow> f32) \<Rightarrow> tensor" where
  "sample_tensor buf =
     \<lparr>storage = buf, offset = 0, shape = [2, 3, 224, 224],
      strides = [150528, 50176, 224, 1], requires_grad = False\<rparr>"

definition sample_channels_last :: "(nat \<Rightarrow> f32) \<Rightarrow> ndarray" where
  "sample_channels_last buf =
     \<lparr>storage = buf, offset = 0, shape = [2, 224, 224, 3],
      strides = [150528, 224, 1, 50176], requires_grad = False\<rparr>"

text \<open>What a call does to the environment: the assignment and the imports write it, when
  they return.\<close>

fun env_step :: "lib \<Rightarrow> call \<Rightarrow> (string \<rightharpoonup> string) \<Rightarrow> (string \<rightharpoonup> string)" where
  "env_step L (CSetEnv k v) env =
     (case os_putenv L k v of Inl e \<Rightarrow> env | Inr u \<Rightarrow> env(k \<mapsto> v))"
| "env_step L (CImport m e) env =
     (case import_module L m e of Inl e \<Rightarrow> env | Inr w \<Rightarrow> module_writes env w)"
| "env_step L c env = env"

text \<open>The exception a library raises on a call, if it raises.\<close>

definition exception_of :: "error + 'a \<Rightarrow> error option" where
  "exception_of r = (case r of Inl e \<Rightarrow> Some e | Inr _ \<Rightarrow> None)"

fun raised :: "lib \<Rightarrow> call \<Rightarrow> error option" where
  "raised L (CSetEnv k v) = exception_of (os_putenv L k v)"
| "raised L (CImport m env) = exception_of (import_module L m env)"
| "raised L (CCreateModel name n p) = exception_of (timm_create_model L name n p)"
| "raised L (CLoadTimmModel name n pt) = exception_of (tfimm_load_timm_model L name n pt)"
| "raised L (CRand sizes) = exception_of (torch_rand L sizes)"
| "raised L (CForward m x) = exception_of (torch_forward L m x)"
| "raised L (CPredict m a) = exception_of (keras_predict L m a)"
| "raised L (CPrint a) = exception_of (py_print L a)"
| "raised L (CSave m path fmt) = exception_of (keras_save L m path fmt)"

text \<open>The kind of a call, and the kinds in the order of the source lines.\<close>

datatype kind =
    KImport string | KSetEnv | KCreateModel | KLoadTimmModel | KRand
  | KForward | KPredict | KPrint | KSave

fun kind_of :: "call \<Rightarrow> kind" where
  "kind_of (CSetEnv k v) = KSetEnv"
| "kind_of (CImport m env) = KImport m"
| "kind_of (CCreateModel name n p) = KCreateModel"
| "kind_of (CLoadTimmModel name n pt) = KLoadTimmModel"
| "kind_of (CRand sizes) = KRand"
| "kind_of (CForward m x) = KForward"
| "kind_of (CPredict m a) = KPredict"
| "kind_of (CPrint a) = KPrint"
| "kind_of (CSave m path fmt) = KSave"

definition notebook_order :: "kind list" where
  "notebook_order =
     [KImport ''os'', KSetEnv, KImport ''timm'', KImport ''tfimm'', KImport ''tensorflow'',
      KImport ''torch'', KCreateModel, KLoadTimmModel, KRand, KForward, KPredict,
      KPrint, KPrint, KSave]"

fun is_rand :: "call \<Rightarrow> bool" where
  "is_rand (CRand sizes) = True"
| "is_rand c = False"

fun imports_module :: "string \<Rightarrow> call \<Rightarrow> bool" where
  "imports_module m (CImport m' env) = (m = m')"
| "imports_module m c = False"


text \<open>
  Libraries to run the notebook on: one where every call returns and no import sets a
  variable, one where the pretrained weights cannot be fetched, and one where importing
  tensorflow sets \<^verbatim>\<open>TF2_BEHAVIOR\<close>, as tensorflow 2 does. With them, an empty
  environment and an empty disk.
\<close>

definition logits :: "tensor \<Rightarrow> bool \<Rightarrow> tensor" where
  "logits x g = x\<lparr>shape := [2, 5], strides := [5, 1], requires_grad := g\<rparr>"

definition lib_ok :: lib where
  "lib_ok =
     \<lparr>os_putenv = (\<lambda>k v. Inr ()),
      import_module = (\<lambda>m env. Inr Map.empty),
      timm_create_model = (\<lambda>name n p. Inr (TModel [1, 2, 3] 0)),
      tfimm_load_timm_model = (\<lambda>name n pt. Inr (KModel (t_weights pt) 0, pt)),
      torch_rand = (\<lambda>sizes. Inr of_nat),
      torch_forward = (\<lambda>m x. Inr (logits x True, Suc (t_internal m))),
      keras_predict = (\<lambda>m a. Inr (logits a False, Suc (k_internal m))),
      py_print = (\<lambda>a. Inr ()),
      keras_save = (\<lambda>m path fmt. Inr ())\<rparr>"

definition lib_offline :: lib where
  "lib_offline =
     lib_ok\<lparr>timm_create_model := (\<lambda>name n p. Inl (LibraryError ''cannot fetch the weights''))\<rparr>"

definition lib_tf2 :: lib where
  "lib_tf2 =
     lib_ok\<lparr>import_module :=
       (\<lambda>m env. Inr (if m = ''tensorflow'' then [''TF2_BEHAVIOR'' \<mapsto> ''1''] else Map.empty))\<rparr>"

definition no_variables :: "string \<rightharpoonup> string" where
  "no_variables = Map.empty"

definition no_files :: "string \<rightharpoonup> string \<times> kmodel" where
  "no_files = Map.empty"

section \<open>The publishing workflow\<close>

text \<open>
  The workflow file \<^verbatim>\<open>.github/workflows/publish_test.yml\<close> as data: the events under
  \<^verbatim>\<open>on\<close>, and the job with its steps in order. The lines of a \<^verbatim>\<open>run\<close> script are kept as
  text, one command a line.
\<close>

record step =
  step_name :: "string option"
  step_id :: "string option"
  uses :: "string option"
  with_inputs :: "(string \<times> string) list"
  step_env :: "(string \<times> string) list"
  run :: "string list"
  step_if :: "string option"

record job =
  job_id :: string
  job_name :: string
  matrix :: "(string \<times> string list) list"
  runs_on :: string
  steps :: "step list"

record workflow =
  workflow_name :: string
  on_events :: "string list"
  jobs :: "job list"

text \<open>A text between single quotes, as the expressions of the workflow write it.\<close>

definition quoted :: "string \<Rightarrow> string" where
  "quoted s = [CHR 0x27] @ s @ [CHR 0x27]"

definition plain_step :: step where
  "plain_step = \<lparr>step_name = None, step_id = None, uses = None, with_inputs = [],
                  step_env = [], run = [], step_if = None\<rparr>"

definition step_checkout :: step where
  "step_checkout =
     plain_step\<lparr>uses := Some ''actions/checkout@v2'', with_inputs := [(''fetch-depth'', ''1'')]\<rparr>"

definition step_python :: step where
  "step_python =
     plain_step\<lparr>step_name := Some ''Set up Python ${{ matrix.python }}'',
                 uses := Some ''actions/setup-python@v2'',
                 with_inputs := [(''python-version'', ''${{ matrix.python }}'')]\<rparr>"

definition step_poetry :: step where
  "step_poetry =
     plain_step\<lparr>step_name := Some ''Install poetry'',
                 uses := Some ''abatilo/actions-poetry@v2.0.0'',
                 with_inputs := [(''poetry-version'', ''${{ matrix.poetry }}'')]\<rparr>"

definition step_cache :: step where
  "step_cache =
     plain_step\<lparr>step_name := Some ''Cache poetry environment'',
                 step_id := Some ''cache'',
                 uses := Some ''actions/cache@v2.1.6'',
                 with_inputs :=
                   [(''path'', ''~/.virtualenvs''),
                    (''key'', ''poetry-${{ matrix.os }}-${{ matrix.python }}-${{ hashFiles(''
                               @ quoted ''**/poetry.lock'' @ '') }}''),
                    (''restore-keys'',
                       ''poetry-${{ matrix.os }}-${{ matrix.python }}-${{ hashFiles(''
                         @ quoted ''**/poetry.lock'' @ '') }}'')]\<rparr>"

definition step_config :: step where
  "step_config =
     plain_step\<lparr>step_name := Some ''Set Poetry config'',
                 run := [''poetry config virtualenvs.in-project false'',
                         ''poetry config virtualenvs.path ~/.virtualenvs'']\<rparr>"

definition step_install :: step where
  "step_install =
     plain_step\<lparr>step_name := Some ''Install Dependencies'',
                 run := [''poetry install -E timm''],
                 step_if := Some (''steps.cache.outputs.cache-hit != '' @ quoted ''true'')\<rparr>"

definition step_publish :: step where
  "step_publish =
     plain_step\<lparr>step_name := Some ''Publish package'',
                 step_env := [(''TEST_PYPI_TOKEN'', ''${{ secrets.TEST_PYPI_TOKEN }}'')],
                 run := [''poetry config repositories.test-pypi https://test.pypi.org/legacy/'',
                         ''poetry config pypi-token.test-pypi $TEST_PYPI_TOKEN'',
                         ''poetry build'',
                         ''poetry publish -r test-pypi'']\<rparr>"

definition publish_job :: job where
  "publish_job =
     \<lparr>job_id = ''publish'',
      job_name = ''Publish python package to PyPi'',
      matrix = [(''os'', [''ubuntu-latest'']), (''python'', [''3.7'']), (''poetry'', [''1.1.6''])],
      runs_on = ''${{ matrix.os }}'',
      steps = [step_checkout, step_python, step_poetry, step_cache, step_config, step_install,
               step_publish]\<rparr>"

definition publish_test :: workflow where
  "publish_test =
     \<lparr>workflow_name = ''Publish to test.pypi.org'',
      on_events = [''workflow_dispatch''],
      jobs = [publish_job]\<rparr>"

text \<open>A workflow runs on an event when the event is listed under \<^verbatim>\<open>on\<close>.\<close>

definition triggered_by :: "workflow \<Rightarrow> string \<Rightarrow> bool" where
  "triggered_by w ev = (ev \<in> set (on_events w))"

text \<open>
  What is outside the workflow file, for one run of the job: what the \<^verbatim>\<open>if\<close> expressions
  evaluate to, the values of the secrets (empty when a secret is not set), which actions
  fail, and which commands fail for a reason of their own (the network, the registry
  refusing the token or the version).
\<close>

record runner =
  holds :: "string \<Rightarrow> bool"
  secret :: "string \<Rightarrow> string"
  action_fails :: "string \<Rightarrow> bool"
  command_fails :: "string list \<Rightarrow> bool"

text \<open>A command line is split into words at the spaces.\<close>

fun split_on :: "char \<Rightarrow> string \<Rightarrow> string list" where
  "split_on c [] = [[]]"
| "split_on c (x # xs) =
     (if x = c then [] # split_on c xs
      else (case split_on c xs of [] \<Rightarrow> [[x]] | w # ws \<Rightarrow> (x # w) # ws))"

definition words_of :: "string \<Rightarrow> string list" where
  "words_of s = filter (\<lambda>w. w \<noteq> []) (split_on CHR '' '' s)"

text \<open>
  The value of an entry of \<^verbatim>\<open>env\<close>: the expression \<^verbatim>\<open>${{ secrets.NAME }}\<close> is the secret of
  that name, any other text is itself.
\<close>

definition expression_value :: "runner \<Rightarrow> string \<Rightarrow> string" where
  "expression_value R v =
     (if 15 \<le> length v \<and> take 12 v = ''${{ secrets.'' \<and> drop (length v - 3) v = '' }}''
      then secret R (take (length v - 15) (drop 12 v))
      else v)"

text \<open>
  The shell replaces a word \<^verbatim>\<open>$NAME\<close> by the value of the variable, split into words
  since it is not quoted: an empty or unset variable leaves no word. Other words are
  taken as they are.
\<close>

definition expand_word :: "(string \<times> string) list \<Rightarrow> string \<Rightarrow> string list" where
  "expand_word vars w =
     (case w of
        [] \<Rightarrow> []
      | c # name \<Rightarrow>
          if c = CHR ''$'' \<and> name \<noteq> []
          then (case map_of vars name of None \<Rightarrow> [] | Some v \<Rightarrow> words_of v)
          else [w])"

definition command_words :: "runner \<Rightarrow> step \<Rightarrow> string \<Rightarrow> string list" where
  "command_words R st line =
     concat (map (expand_word (map (\<lambda>(k, v). (k, expression_value R v)) (step_env st)))
                 (words_of line))"

text \<open>
  What poetry keeps between commands (its configuration is a file of the runner): the
  registries named by \<^verbatim>\<open>poetry config repositories.NAME URL\<close>, the registries that a token
  was given for, whether the package is built, and the registries the package was
  uploaded to, in order.
\<close>

record shell =
  repositories :: "string \<rightharpoonup> string"
  tokens :: "string \<rightharpoonup> string"
  built :: bool
  uploads :: "string list"

datatype verdict = Completed | Failed | Unmodelled

definition pypi_production :: string where
  "pypi_production = ''https://upload.pypi.org/legacy/''"

definition poetry_settings :: "string list" where
  "poetry_settings =
     [''cache-dir'', ''virtualenvs.create'', ''virtualenvs.in-project'', ''virtualenvs.path'',
      ''experimental.new-installer'']"

definition is_option :: "string \<Rightarrow> bool" where
  "is_option w = (take 1 w = ''-'')"

text \<open>
  \<^verbatim>\<open>poetry config KEY VALUES\<close>. Without a value the setting is shown, and a key that is no
  setting is an error. A registry takes one value, its URL; a token takes one value; a
  setting of poetry takes its value. The options of the command are not described.
\<close>

definition poetry_config :: "string list \<Rightarrow> shell \<Rightarrow> verdict \<times> shell" where
  "poetry_config args sh =
     (if \<exists>a \<in> set args. is_option a then (Unmodelled, sh)
      else case args of
        [] \<Rightarrow> (Completed, sh)
      | key # vals \<Rightarrow>
          if take 13 key = ''repositories.'' \<and> 13 < length key then
            (case vals of
               [] \<Rightarrow> (if repositories sh (drop 13 key) = None then Failed else Completed, sh)
             | [url] \<Rightarrow> (Completed, sh\<lparr>repositories := (repositories sh)(drop 13 key \<mapsto> url)\<rparr>)
             | _ \<Rightarrow> (Failed, sh))
          else if take 11 key = ''pypi-token.'' \<and> 11 < length key then
            (case vals of
               [tok] \<Rightarrow> (Completed, sh\<lparr>tokens := (tokens sh)(drop 11 key \<mapsto> tok)\<rparr>)
             | _ \<Rightarrow> (Failed, sh))
          else if key \<in> set poetry_settings then
            (case vals of
               [] \<Rightarrow> (Completed, sh)
             | [v] \<Rightarrow> (Completed, sh)
             | _ \<Rightarrow> (Failed, sh))
          else (Failed, sh))"

text \<open>
  The options of \<^verbatim>\<open>poetry publish\<close>: the registry (\<^verbatim>\<open>-r\<close>, \<^verbatim>\<open>--repository\<close>), \<^verbatim>\<open>--build\<close>,
  \<^verbatim>\<open>--dry-run\<close>, and those that take a value and do not choose the registry. Any other
  word is not accepted.
\<close>

datatype publish_option = Repository | RepositoryIs string | Build | DryRun | WithValue | Rejected

definition publish_option :: "string \<Rightarrow> publish_option" where
  "publish_option a =
     (if a = ''-r'' \<or> a = ''--repository'' then Repository
      else if take 13 a = ''--repository='' then RepositoryIs (drop 13 a)
      else if a = ''--build'' then Build
      else if a = ''--dry-run'' then DryRun
      else if a \<in> set [''-u'', ''--username'', ''-p'', ''--password'', ''--cert'', ''--client-cert'']
        then WithValue
      else Rejected)"

record publish_request =
  registry :: "string option"
  build_first :: bool
  dry_run :: bool

text \<open>The request that the arguments make; none when they are not accepted.\<close>

fun publish_options :: "string list \<Rightarrow> publish_request \<Rightarrow> publish_request option" where
  "publish_options [] req = Some req"
| "publish_options (a # rest) req =
     (case publish_option a of
        Build \<Rightarrow> publish_options rest (req\<lparr>build_first := True\<rparr>)
      | DryRun \<Rightarrow> publish_options rest (req\<lparr>dry_run := True\<rparr>)
      | RepositoryIs n \<Rightarrow> publish_options rest (req\<lparr>registry := Some n\<rparr>)
      | Repository \<Rightarrow>
          (case rest of
             [] \<Rightarrow> None
           | n # rest' \<Rightarrow> publish_options rest' (req\<lparr>registry := Some n\<rparr>))
      | WithValue \<Rightarrow>
          (case rest of
             [] \<Rightarrow> None
           | v # rest' \<Rightarrow> publish_options rest' req)
      | Rejected \<Rightarrow> None)"

text \<open>
  \<^verbatim>\<open>poetry publish\<close> uploads the built package: to the registry named, which has to be
  configured, or to the production registry when none is named (or \<^verbatim>\<open>pypi\<close> is). Without
  a built package, or with arguments it does not accept, it fails.
\<close>

definition poetry_publish :: "string list \<Rightarrow> shell \<Rightarrow> verdict \<times> shell" where
  "poetry_publish args sh =
     (case publish_options args \<lparr>registry = None, build_first = False, dry_run = False\<rparr> of
        None \<Rightarrow> (Failed, sh)
      | Some req \<Rightarrow>
          let sh' = (if build_first req then sh\<lparr>built := True\<rparr> else sh);
              target = (case registry req of
                          None \<Rightarrow> Some pypi_production
                        | Some n \<Rightarrow> if n = ''pypi'' then Some pypi_production
                                    else repositories sh' n)
          in case target of
               None \<Rightarrow> (Failed, sh')
             | Some url \<Rightarrow>
                 if \<not> built sh' then (Failed, sh')
                 else if dry_run req then (Completed, sh')
                 else (Completed, sh'\<lparr>uploads := uploads sh' @ [url]\<rparr>))"

text \<open>
  The commands of poetry that the workflow uses: \<^verbatim>\<open>config\<close>, \<^verbatim>\<open>install\<close> (which touches
  nothing kept here), \<^verbatim>\<open>build\<close> and \<^verbatim>\<open>publish\<close>. Any other command is not described. What
  is written out is what a command does when it completes, and the failures that the
  words of the command decide; any other failure is among those of \<open>command_fails\<close>.
\<close>

definition poetry :: "string list \<Rightarrow> shell \<Rightarrow> verdict \<times> shell" where
  "poetry args sh =
     (case args of
        [] \<Rightarrow> (Completed, sh)
      | c # rest \<Rightarrow>
          if c = ''config'' then poetry_config rest sh
          else if c = ''install'' then (Completed, sh)
          else if c = ''build'' then (Completed, sh\<lparr>built := True\<rparr>)
          else if c = ''publish'' then poetry_publish rest sh
          else (Unmodelled, sh))"

text \<open>
  One command: a command that fails for a reason of its own changes nothing; a program
  other than poetry is not described.
\<close>

definition exec_command :: "runner \<Rightarrow> string list \<Rightarrow> shell \<Rightarrow> verdict \<times> shell" where
  "exec_command R ws sh =
     (case ws of
        [] \<Rightarrow> (Completed, sh)
      | w # args \<Rightarrow>
          if w \<noteq> ''poetry'' then (Unmodelled, sh)
          else if command_fails R ws then (Failed, sh)
          else poetry args sh)"

text \<open>
  The script of a step runs under \<^verbatim>\<open>bash -e\<close>: line after line, and it stops at the first
  command that does not complete.
\<close>

fun exec_lines :: "runner \<Rightarrow> step \<Rightarrow> string list \<Rightarrow> shell \<Rightarrow> verdict \<times> shell" where
  "exec_lines R st [] sh = (Completed, sh)"
| "exec_lines R st (l # ls) sh =
     (case exec_command R (command_words R st l) sh of
        (Completed, sh') \<Rightarrow> exec_lines R st ls sh'
      | (v, sh') \<Rightarrow> (v, sh'))"

text \<open>
  The actions the workflow uses prepare the runner (sources, python, poetry, the cache)
  and upload nothing; any other action is not described.
\<close>

definition known_actions :: "string list" where
  "known_actions =
     [''actions/checkout@v2'', ''actions/setup-python@v2'', ''abatilo/actions-poetry@v2.0.0'',
      ''actions/cache@v2.1.6'']"

text \<open>A step is skipped when its condition does not hold.\<close>

definition exec_step :: "runner \<Rightarrow> step \<Rightarrow> shell \<Rightarrow> verdict \<times> shell" where
  "exec_step R st sh =
     (if (case step_if st of None \<Rightarrow> False | Some c \<Rightarrow> \<not> holds R c) then (Completed, sh)
      else case uses st of
        Some a \<Rightarrow>
          if a \<notin> set known_actions then (Unmodelled, sh)
          else if action_fails R a then (Failed, sh)
          else (Completed, sh)
      | None \<Rightarrow> exec_lines R st (run st) sh)"

text \<open>
  The steps of a job run in order, each one only when those before it completed: none
  of the conditions of this workflow asks for anything else.
\<close>

fun exec_steps :: "runner \<Rightarrow> step list \<Rightarrow> shell \<Rightarrow> verdict \<times> shell" where
  "exec_steps R [] sh = (Completed, sh)"
| "exec_steps R (st # sts) sh =
     (case exec_step R st sh of
        (Completed, sh') \<Rightarrow> exec_steps R sts sh'
      | (v, sh') \<Rightarrow> (v, sh'))"

text \<open>A job starts on a new runner: nothing configured, nothing built, nothing uploaded.\<close>

definition fresh_shell :: shell where
  "fresh_shell = \<lparr>repositories = Map.empty, tokens = Map.empty, built = False, uploads = []\<rparr>"

definition exec_job :: "runner \<Rightarrow> job \<Rightarrow> verdict \<times> shell" where
  "exec_job R j = exec_steps R (steps j) fresh_shell"

text \<open>A runner where nothing fails and the token is set, and one where the token is not set.\<close>

definition runner_ok :: runner where
  "runner_ok =
     \<lparr>holds = (\<lambda>c. True),
      secret = (\<lambda>n. if n = ''TEST_PYPI_TOKEN'' then ''pypi-AgENdGVzdC5weXBp'' else ''''),
      action_fails = (\<lambda>a. False),
      command_fails = (\<lambda>ws. False)\<rparr>"

definition runner_no_token :: runner where
  "runner_no_token = runner_ok\<lparr>secret := (\<lambda>n. '''')\<rparr>"

section \<open>Running the notebook, call by call\<close>

lemma bind_nb_assoc: "bind_nb (bind_nb m f) g = bind_nb m (\<lambda>x. bind_nb (f x) g)"
  by (auto simp: bind_nb_def fun_eq_iff split: prod.splits sum.splits)

lemma bind_return: "bind_nb (return_nb x) f s = f x s"
  by (simp add: bind_nb_def return_nb_def)

lemma run_return: "return_nb x s = (Inr x, s)"
  by (simp add: return_nb_def)

lemma bind_modify: "bind_nb (modify_nb g) f s = f () (g s)"
  by (simp add: bind_nb_def modify_nb_def)

lemma run_modify: "modify_nb g s = (Inr (), g s)"
  by (simp add: modify_nb_def)

lemma bind_read: "bind_nb (\<lambda>s. (Inr (g s), s)) f s = f (g s) s"
  by (simp add: bind_nb_def)

lemma bind_load_name:
  "bind_nb (load_name x var) f s =
     (case var s of None \<Rightarrow> (Inl (NameError x), s) | Some v \<Rightarrow> f v s)"
  by (simp add: bind_nb_def load_name_def split: option.splits)

lemma bind_lift:
  "bind_nb (lift_nb r) f s = (case r of Inl e \<Rightarrow> (Inl e, s) | Inr v \<Rightarrow> f v s)"
  by (simp add: bind_nb_def lift_nb_def split: sum.splits)

lemma bind_library_call:
  "bind_nb (library_call c r) f s =
     (case r of Inl e \<Rightarrow> (Inl e, s\<lparr>calls := calls s @ [c]\<rparr>)
              | Inr v \<Rightarrow> f v (s\<lparr>calls := calls s @ [c]\<rparr>))"
  by (simp add: bind_nb_def library_call_def split: sum.splits)

lemmas exec_simps = bind_nb_assoc bind_return run_return bind_modify run_modify bind_read
  bind_load_name bind_lift bind_library_call

lemmas nb_defs = run_notebook_def notebook_def cell_imports_def cell_parameters_def cell_create_def
  cell_convert_def cell_test_def cell_print_def cell_save_def stmt_sample_input_def
  stmt_torch_output_def stmt_keras_output_def print_stmt_def import_as_def environ_setitem_def
  fresh_kernel_def new_tensor_def permute_def numpy_def detach_def

lemma observe_run:
  "run_notebook L env dsk = (r, s) \<Longrightarrow>
   (r, environ s, stdout s, disk s, timm_model s, keras_model s, calls s)
     = observe (run_notebook L env dsk)"
  by simp

lemma run_pair:
  "run_notebook L env dsk = (fst (run_notebook L env dsk), snd (run_notebook L env dsk))"
  by simp

lemma run_result: "fst (run_notebook L env dsk) = fst (observe (run_notebook L env dsk))"
  by (cases "run_notebook L env dsk") simp

lemma run_environ:
  "environ (snd (run_notebook L env dsk)) = fst (snd (observe (run_notebook L env dsk)))"
  by (cases "run_notebook L env dsk") simp

lemma run_stdout:
  "stdout (snd (run_notebook L env dsk)) = fst (snd (snd (observe (run_notebook L env dsk))))"
  by (cases "run_notebook L env dsk") simp

lemma run_disk:
  "disk (snd (run_notebook L env dsk)) = fst (snd (snd (snd (observe (run_notebook L env dsk)))))"
  by (cases "run_notebook L env dsk") simp

lemma run_timm_model:
  "timm_model (snd (run_notebook L env dsk))
     = fst (snd (snd (snd (snd (observe (run_notebook L env dsk))))))"
  by (cases "run_notebook L env dsk") simp

lemma run_keras_model:
  "keras_model (snd (run_notebook L env dsk))
     = fst (snd (snd (snd (snd (snd (observe (run_notebook L env dsk)))))))"
  by (cases "run_notebook L env dsk") simp

lemma run_calls:
  "calls (snd (run_notebook L env dsk))
     = snd (snd (snd (snd (snd (snd (observe (run_notebook L env dsk)))))))"
  by (cases "run_notebook L env dsk") simp

lemmas run_projections = run_result run_environ run_stdout run_disk run_timm_model
  run_keras_model run_calls

section \<open>The environment\<close>

lemma module_writes_log_level [simp]:
  "module_writes env w ''TF_CPP_MIN_LOG_LEVEL'' = env ''TF_CPP_MIN_LOG_LEVEL''"
  by (simp add: module_writes_def)

lemma module_writes_other:
  "k \<noteq> ''TF_CPP_MIN_LOG_LEVEL'' \<Longrightarrow> module_writes env w k = (env ++ w) k"
  by (simp add: module_writes_def)

lemma module_writes_empty [simp]: "module_writes env Map.empty = env"
  by (simp add: module_writes_def fun_eq_iff)

lemma with_log_level_same [simp]:
  "with_log_level env ''TF_CPP_MIN_LOG_LEVEL'' = Some ''3''"
  by (simp add: with_log_level_def)

lemma with_log_level_other:
  "k \<noteq> ''TF_CPP_MIN_LOG_LEVEL'' \<Longrightarrow> with_log_level env k = env k"
  by (simp add: with_log_level_def)

section \<open>The sample tensor and its permutation\<close>

lemma element_sample:
  "n < 2 \<Longrightarrow> c < 3 \<Longrightarrow> h < 224 \<Longrightarrow> w < 224 \<Longrightarrow>
   element (sample_tensor buf) [n, c, h, w] = Some (buf (150528 * n + 50176 * c + 224 * h + w))"
  by (simp add: element_def sample_tensor_def algebra_simps)

lemma element_channels_last:
  "n < 2 \<Longrightarrow> c < 3 \<Longrightarrow> h < 224 \<Longrightarrow> w < 224 \<Longrightarrow>
   element (sample_channels_last buf) [n, h, w, c] =
     Some (buf (150528 * n + 50176 * c + 224 * h + w))"
  by (simp add: element_def sample_channels_last_def algebra_simps)

lemma permute_sample:
  "permute (sample_tensor buf) [0, 2, 3, 1] = Inr (sample_channels_last buf)"
  by (simp add: permute_def sample_tensor_def sample_channels_last_def)

lemma run_notebook_tree:
  "observe (run_notebook L env dsk) =
    logged (CImport ''os'' env)
      (case import_module L ''os'' env of
         Inl e \<Rightarrow> (Inl e, env, [], dsk, None, None, [])
       | Inr w0 \<Rightarrow>
    logged (CSetEnv ''TF_CPP_MIN_LOG_LEVEL'' ''3'')
      (case os_putenv L ''TF_CPP_MIN_LOG_LEVEL'' ''3'' of
         Inl e \<Rightarrow> (Inl e, (module_writes env w0), [], dsk, None, None, [])
       | Inr _ \<Rightarrow>
    logged (CImport ''timm'' (with_log_level (module_writes env w0)))
      (case import_module L ''timm'' (with_log_level (module_writes env w0)) of
         Inl e \<Rightarrow> (Inl e, (with_log_level (module_writes env w0)), [], dsk, None,
           None, [])
       | Inr w1 \<Rightarrow>
    logged (CImport ''tfimm'' (module_writes (with_log_level (module_writes env w0)) w1))
      (case import_module L ''tfimm'' (module_writes (with_log_level (module_writes env w0)) w1)
        of
         Inl e \<Rightarrow> (Inl e, (module_writes (with_log_level (module_writes env w0)) w1),
           [], dsk, None, None, [])
       | Inr w2 \<Rightarrow>
    logged (CImport ''tensorflow'' (module_writes (module_writes (with_log_level (module_writes
      env w0)) w1) w2))
      (case import_module L ''tensorflow'' (module_writes (module_writes (with_log_level
        (module_writes env w0)) w1) w2) of
         Inl e \<Rightarrow> (Inl e, (module_writes (module_writes (with_log_level
           (module_writes env w0)) w1) w2), [], dsk, None, None, [])
       | Inr w3 \<Rightarrow>
    logged (CImport ''torch'' (module_writes (module_writes (module_writes (with_log_level
      (module_writes env w0)) w1) w2) w3))
      (case import_module L ''torch'' (module_writes (module_writes (module_writes
        (with_log_level (module_writes env w0)) w1) w2) w3) of
         Inl e \<Rightarrow> (Inl e, (module_writes (module_writes (module_writes
           (with_log_level (module_writes env w0)) w1) w2) w3), [], dsk, None, None, [])
       | Inr w4 \<Rightarrow>
    logged (CCreateModel ''vit_tiny_patch16_224'' 5 True)
      (case timm_create_model L ''vit_tiny_patch16_224'' 5 True of
         Inl e \<Rightarrow> (Inl e, (module_writes (module_writes (module_writes (module_writes
           (with_log_level (module_writes env w0)) w1) w2) w3) w4), [], dsk, None, None, [])
       | Inr tm \<Rightarrow>
    logged (CLoadTimmModel ''vit_tiny_patch16_224'' 5 tm)
      (case tfimm_load_timm_model L ''vit_tiny_patch16_224'' 5 tm of
         Inl e \<Rightarrow> (Inl e, (module_writes (module_writes (module_writes (module_writes
           (with_log_level (module_writes env w0)) w1) w2) w3) w4), [], dsk, (Some tm), None, [])
       | Inr (km, tm1) \<Rightarrow>
    logged (CRand [2, 3, 224, 224])
      (case torch_rand L [2, 3, 224, 224] of
         Inl e \<Rightarrow> (Inl e, (module_writes (module_writes (module_writes (module_writes
           (with_log_level (module_writes env w0)) w1) w2) w3) w4), [], dsk, (Some tm1), (Some
           km), [])
       | Inr buf \<Rightarrow>
    logged (CForward tm1 (sample_tensor buf))
      (case torch_forward L tm1 (sample_tensor buf) of
         Inl e \<Rightarrow> (Inl e, (module_writes (module_writes (module_writes (module_writes
           (with_log_level (module_writes env w0)) w1) w2) w3) w4), [], dsk, (Some tm1), (Some
           km), [])
       | Inr (y, i) \<Rightarrow>
    logged (CPredict km (sample_channels_last buf))
      (case keras_predict L km (sample_channels_last buf) of
         Inl e \<Rightarrow> (Inl e, (module_writes (module_writes (module_writes (module_writes
           (with_log_level (module_writes env w0)) w1) w2) w3) w4), [], dsk, (Some (TModel
           (t_weights tm1) i)), (Some km), [])
       | Inr (out, j) \<Rightarrow>
    logged (CPrint (detach y))
      (case py_print L (detach y) of
         Inl e \<Rightarrow> (Inl e, (module_writes (module_writes (module_writes (module_writes
           (with_log_level (module_writes env w0)) w1) w2) w3) w4), [], dsk, (Some (TModel
           (t_weights tm1) i)), (Some (KModel (k_weights km) j)), [])
       | Inr _ \<Rightarrow>
    logged (CPrint out)
      (case py_print L out of
         Inl e \<Rightarrow> (Inl e, (module_writes (module_writes (module_writes (module_writes
           (with_log_level (module_writes env w0)) w1) w2) w3) w4), [detach y], dsk, (Some (TModel
           (t_weights tm1) i)), (Some (KModel (k_weights km) j)), [])
       | Inr _ \<Rightarrow>
    logged (CSave (KModel (k_weights km) j) (''keras_'' @ ''vit_tiny_patch16_224'') ''tf'')
      (case keras_save L (KModel (k_weights km) j) (''keras_'' @ ''vit_tiny_patch16_224'')
        ''tf'' of
         Inl e \<Rightarrow> (Inl e, (module_writes (module_writes (module_writes (module_writes
           (with_log_level (module_writes env w0)) w1) w2) w3) w4), [detach y, out], dsk, (Some
           (TModel (t_weights tm1) i)), (Some (KModel (k_weights km) j)), [])
       | Inr _ \<Rightarrow>
      (Inr (), (module_writes (module_writes (module_writes (module_writes (with_log_level (module_writes env w0)) w1) w2) w3) w4), [detach y, out], dsk(''keras_'' @ ''vit_tiny_patch16_224'' \<mapsto> (''tf'', (KModel (k_weights km) j))),
         Some (TModel (t_weights tm1) i), Some (KModel (k_weights km) j), [])))))))))))))))"
  by (simp add: nb_defs exec_simps sample_tensor_def sample_channels_last_def with_log_level_def
           split: sum.splits prod.splits)

section \<open>Who writes the environment\<close>

lemma environ_replay:
  assumes "run_notebook L env dsk = (r, s)"
  shows "environ s = fold (env_step L) (calls s) env"
  using observe_run [OF assms] unfolding run_notebook_tree
  by (auto simp: with_log_level_def split: sum.splits prod.splits)

lemma module_writes_writer:
  "k \<noteq> ''TF_CPP_MIN_LOG_LEVEL'' \<Longrightarrow> module_writes env w k \<noteq> env k \<Longrightarrow> w k = module_writes env w k"
  by (auto simp: module_writes_def map_add_def split: option.splits)

lemma fold_env_step_writer:
  assumes "k \<noteq> ''TF_CPP_MIN_LOG_LEVEL''"
    and "fold (env_step L) cs env k \<noteq> env k"
  shows "(\<exists>v. CSetEnv k v \<in> set cs) \<or>
         (\<exists>m e w. CImport m e \<in> set cs \<and> import_module L m e = Inr w \<and>
                   w k = fold (env_step L) cs env k)"
  using assms(2)
proof (induction cs arbitrary: env)
  case Nil
  then show ?case by simp
next
  case (Cons c cs)
  show ?case
  proof (cases "fold (env_step L) cs (env_step L c env) k = env_step L c env k")
    case False
    from Cons.IH [OF False] show ?thesis by auto
  next
    case True
    with Cons.prems have ne: "env_step L c env k \<noteq> env k" by simp
    show ?thesis
    proof (cases c)
      case (CSetEnv k' v)
      with ne have "k' = k" by (auto split: sum.splits if_splits)
      with CSetEnv show ?thesis by auto
    next
      case (CImport m e)
      with ne obtain w where w: "import_module L m e = Inr w" "module_writes env w k \<noteq> env k"
        by (auto split: sum.splits)
      from module_writes_writer [OF assms(1) w(2)] w(1) CImport True
      show ?thesis by auto
    qed (use ne in auto)
  qed
qed

section \<open>Running the publishing job, step by step\<close>

lemma words_config_in_project:
  "words_of ''poetry config virtualenvs.in-project false''
     = [''poetry'', ''config'', ''virtualenvs.in-project'', ''false'']"
  by (simp add: words_of_def)

lemma words_config_path:
  "words_of ''poetry config virtualenvs.path ~/.virtualenvs''
     = [''poetry'', ''config'', ''virtualenvs.path'', ''~/.virtualenvs'']"
  by (simp add: words_of_def)

lemma words_install:
  "words_of ''poetry install -E timm'' = [''poetry'', ''install'', ''-E'', ''timm'']"
  by (simp add: words_of_def)

lemma words_config_repository:
  "words_of ''poetry config repositories.test-pypi https://test.pypi.org/legacy/''
     = [''poetry'', ''config'', ''repositories.test-pypi'', ''https://test.pypi.org/legacy/'']"
  by (simp add: words_of_def)

lemma words_config_token:
  "words_of ''poetry config pypi-token.test-pypi $TEST_PYPI_TOKEN''
     = [''poetry'', ''config'', ''pypi-token.test-pypi'', ''$TEST_PYPI_TOKEN'']"
  by (simp add: words_of_def)

lemma words_build: "words_of ''poetry build'' = [''poetry'', ''build'']"
  by (simp add: words_of_def)

lemma words_publish:
  "words_of ''poetry publish -r test-pypi'' = [''poetry'', ''publish'', ''-r'', ''test-pypi'']"
  by (simp add: words_of_def)

lemmas words_simps = words_config_in_project words_config_path words_install
  words_config_repository words_config_token words_build words_publish

lemma token_expression:
  "expression_value R ''${{ secrets.TEST_PYPI_TOKEN }}'' = secret R ''TEST_PYPI_TOKEN''"
  by (simp add: expression_value_def)

lemma action_step:
  "uses st = Some a \<Longrightarrow> a \<in> set known_actions \<Longrightarrow> step_if st = None \<Longrightarrow>
   exec_step R st sh = (if action_fails R a then Failed else Completed, sh)"
  by (simp add: exec_step_def)

lemma exec_checkout:
  "exec_step R step_checkout sh
     = (if action_fails R ''actions/checkout@v2'' then Failed else Completed, sh)"
  by (rule action_step) (simp_all add: step_checkout_def plain_step_def known_actions_def)

lemma exec_python:
  "exec_step R step_python sh
     = (if action_fails R ''actions/setup-python@v2'' then Failed else Completed, sh)"
  by (rule action_step) (simp_all add: step_python_def plain_step_def known_actions_def)

lemma exec_poetry:
  "exec_step R step_poetry sh
     = (if action_fails R ''abatilo/actions-poetry@v2.0.0'' then Failed else Completed, sh)"
  by (rule action_step) (simp_all add: step_poetry_def plain_step_def known_actions_def)

lemma exec_cache:
  "exec_step R step_cache sh
     = (if action_fails R ''actions/cache@v2.1.6'' then Failed else Completed, sh)"
  by (rule action_step) (simp_all add: step_cache_def plain_step_def known_actions_def)

lemma exec_config:
  "exec_step R step_config sh
     = (if command_fails R [''poetry'', ''config'', ''virtualenvs.in-project'', ''false'']
           \<or> command_fails R [''poetry'', ''config'', ''virtualenvs.path'', ''~/.virtualenvs'']
        then Failed else Completed, sh)"
  by (simp add: exec_step_def step_config_def plain_step_def command_words_def words_simps
        expand_word_def exec_command_def poetry_def poetry_config_def poetry_settings_def
        is_option_def)

lemma exec_install:
  "exec_step R step_install sh
     = (if holds R (''steps.cache.outputs.cache-hit != '' @ quoted ''true'')
           \<and> command_fails R [''poetry'', ''install'', ''-E'', ''timm'']
        then Failed else Completed, sh)"
  by (simp add: exec_step_def step_install_def plain_step_def command_words_def words_simps
        expand_word_def exec_command_def poetry_def)

lemma exec_publish:
  "exec_step R step_publish sh =
     (let url = ''https://test.pypi.org/legacy/'';
          ws = words_of (secret R ''TEST_PYPI_TOKEN'');
          sh1 = sh\<lparr>repositories := (repositories sh)(''test-pypi'' \<mapsto> url)\<rparr>
      in if command_fails R [''poetry'', ''config'', ''repositories.test-pypi'', url]
           then (Failed, sh)
         else if command_fails R (''poetry'' # ''config'' # ''pypi-token.test-pypi'' # ws)
           then (Failed, sh1)
         else if \<exists>a \<in> set ws. is_option a then (Unmodelled, sh1)
         else case ws of
           [t] \<Rightarrow>
             if command_fails R [''poetry'', ''build'']
               then (Failed, sh1\<lparr>tokens := (tokens sh)(''test-pypi'' \<mapsto> t)\<rparr>)
             else if command_fails R [''poetry'', ''publish'', ''-r'', ''test-pypi'']
               then (Failed, sh1\<lparr>tokens := (tokens sh)(''test-pypi'' \<mapsto> t), built := True\<rparr>)
             else (Completed, sh1\<lparr>tokens := (tokens sh)(''test-pypi'' \<mapsto> t), built := True,
                                   uploads := uploads sh @ [url]\<rparr>)
         | _ \<Rightarrow> (Failed, sh1))"
  by (simp add: exec_step_def step_publish_def plain_step_def command_words_def words_simps
        token_expression expand_word_def exec_command_def poetry_def poetry_config_def
        poetry_publish_def publish_option_def is_option_def Let_def
        split: list.splits)

lemma exec_publish_uploads:
  assumes "exec_step R step_publish sh = (v, sh')"
  shows "(uploads sh' = uploads sh \<or>
            v = Completed \<and> uploads sh' = uploads sh @ [''https://test.pypi.org/legacy/'']) \<and>
         (v = Unmodelled \<longrightarrow> (\<exists>a \<in> set (words_of (secret R ''TEST_PYPI_TOKEN'')). is_option a)) \<and>
         (words_of (secret R ''TEST_PYPI_TOKEN'') = [] \<longrightarrow> v = Failed \<and> uploads sh' = uploads sh)"
  using assms unfolding exec_publish
  by (auto simp: Let_def split: if_splits list.splits)

lemma exec_publish_ok:
  assumes "\<forall>ws. \<not> command_fails R ws"
    and "words_of (secret R ''TEST_PYPI_TOKEN'') = [secret R ''TEST_PYPI_TOKEN'']"
    and "\<not> is_option (secret R ''TEST_PYPI_TOKEN'')"
  shows "fst (exec_step R step_publish sh) = Completed \<and>
         uploads (snd (exec_step R step_publish sh)) = uploads sh @ [''https://test.pypi.org/legacy/'']"
  unfolding exec_publish using assms by (simp add: Let_def)

lemmas step_simps = exec_checkout exec_python exec_poetry exec_cache exec_config exec_install

lemma exec_job_publish_job:
  "exec_job R publish_job =
     (if action_fails R ''actions/checkout@v2'' \<or> action_fails R ''actions/setup-python@v2''
         \<or> action_fails R ''abatilo/actions-poetry@v2.0.0'' \<or> action_fails R ''actions/cache@v2.1.6''
         \<or> command_fails R [''poetry'', ''config'', ''virtualenvs.in-project'', ''false'']
         \<or> command_fails R [''poetry'', ''config'', ''virtualenvs.path'', ''~/.virtualenvs'']
         \<or> holds R (''steps.cache.outputs.cache-hit != '' @ quoted ''true'')
             \<and> command_fails R [''poetry'', ''install'', ''-E'', ''timm'']
      then (Failed, fresh_shell)
      else exec_step R step_publish fresh_shell)"
  by (cases "exec_step R step_publish fresh_shell"; cases "fst (exec_step R step_publish fresh_shell)")
     (simp_all add: exec_job_def publish_job_def step_simps)

section \<open>The claims\<close>

text \<open>
  Claim C1. In the testing step the array given to the keras model is the random tensor
  given to the torch model with its axes permuted by (0,2,3,1): there is one call of
  \<^verbatim>\<open>torch.rand\<close>, its buffer is the storage of both inputs, the torch input has shape
  (2,3,224,224), and for every index (n,c,h,w) of it the keras input holds the same
  element at (n,h,w,c).
\<close>

theorem keras_input_is_permuted_sample:
  assumes "run_notebook L env dsk = (r, s)"
    and "CForward tm x \<in> set (calls s)"
    and "CPredict km a \<in> set (calls s)"
    and "n < 2" and "c < 3" and "h < 224" and "w < 224"
  shows "shape x = [2, 3, 224, 224] \<and>
         permute x [0, 2, 3, 1] = Inr a \<and>
         filter is_rand (calls s) = [CRand [2, 3, 224, 224]] \<and>
         torch_rand L [2, 3, 224, 224] = Inr (storage x) \<and>
         storage a = storage x \<and>
         element x [n, c, h, w] = Some (storage x (150528 * n + 50176 * c + 224 * h + w)) \<and>
         element a [n, h, w, c] = element x [n, c, h, w]"
proof -
  note observe_run [OF assms(1)]
  then obtain buf where xa: "x = sample_tensor buf" "a = sample_channels_last buf"
     "torch_rand L [2, 3, 224, 224] = Inr buf"
     "filter is_rand (calls s) = [CRand [2, 3, 224, 224]]"
    using assms(2,3) unfolding run_notebook_tree
    by (auto split: sum.splits prod.splits)
  have p: "permute x [0, 2, 3, 1] = Inr a"
    unfolding xa(1,2) by (rule permute_sample)
  have ex: "element x [n, c, h, w] = Some (buf (150528 * n + 50176 * c + 224 * h + w))"
    unfolding xa(1) using assms(4-7) by (rule element_sample)
  have ea: "element a [n, h, w, c] = Some (buf (150528 * n + 50176 * c + 224 * h + w))"
    unfolding xa(2) using assms(4-7) by (rule element_channels_last)
  have st: "storage x = buf" "storage a = buf" "shape x = [2, 3, 224, 224]"
    unfolding xa(1,2) by (simp_all add: sample_tensor_def sample_channels_last_def)
  show ?thesis
    unfolding p ex ea st xa(3,4) by simp
qed

theorem keras_input_is_permuted_sample_witness:
  "CForward (TModel [1, 2, 3] 0) (sample_tensor of_nat)
     \<in> set (calls (snd (run_notebook lib_ok Map.empty Map.empty))) \<and>
   CPredict (KModel [1, 2, 3] 0) (sample_channels_last of_nat)
     \<in> set (calls (snd (run_notebook lib_ok Map.empty Map.empty))) \<and>
   element (sample_channels_last of_nat) [1, 3, 4, 2] = Some 251556 \<and>
   element (sample_tensor of_nat) [1, 2, 3, 4] = Some 251556"
proof -
  have f: "CForward (TModel [1, 2, 3] 0) (sample_tensor of_nat)
             \<in> set (calls (snd (run_notebook lib_ok Map.empty Map.empty)))"
    by (simp add: run_projections run_notebook_tree lib_ok_def with_log_level_def)
  have p: "CPredict (KModel [1, 2, 3] 0) (sample_channels_last of_nat)
             \<in> set (calls (snd (run_notebook lib_ok Map.empty Map.empty)))"
    by (simp add: run_projections run_notebook_tree lib_ok_def with_log_level_def)
  have "storage (sample_tensor of_nat) = of_nat"
    by (simp add: sample_tensor_def)
  with keras_input_is_permuted_sample [OF run_pair f p, of 1 2 3 4] f p
  show ?thesis by simp
qed

text \<open>
  Claim C2. No error handling: every call before the last one made returned, and the run
  ends in an exception exactly when the last call made raised it. So a call that raises
  is the last operation of the run and its exception is the result of the run: nothing
  catches it, retries the call or runs a later operation. In particular a run that ends
  in an exception has saved nothing.
\<close>

theorem exception_halts_run:
  assumes "run_notebook L env dsk = (r, s)"
  shows "calls s \<noteq> [] \<and>
         (\<forall>c \<in> set (butlast (calls s)). raised L c = None) \<and>
         (\<forall>e. r = Inl e \<longleftrightarrow> raised L (last (calls s)) = Some e) \<and>
         (\<forall>e. r = Inl e \<longrightarrow> disk s = dsk)"
  using observe_run [OF assms] unfolding run_notebook_tree
  by (auto simp: exception_of_def split: sum.splits prod.splits)

theorem exception_halts_run_witness:
  "fst (run_notebook lib_offline Map.empty Map.empty) = Inl (LibraryError ''cannot fetch the weights'') \<and>
   last (calls (snd (run_notebook lib_offline Map.empty Map.empty)))
     = CCreateModel ''vit_tiny_patch16_224'' 5 True \<and>
   raised lib_offline (CImport ''torch'' [''TF_CPP_MIN_LOG_LEVEL'' \<mapsto> ''3'']) = None \<and>
   disk (snd (run_notebook lib_offline Map.empty Map.empty)) = Map.empty"
proof -
  have c: "calls (snd (run_notebook lib_offline Map.empty Map.empty)) =
     [CImport ''os'' Map.empty, CSetEnv ''TF_CPP_MIN_LOG_LEVEL'' ''3'',
      CImport ''timm'' [''TF_CPP_MIN_LOG_LEVEL'' \<mapsto> ''3''],
      CImport ''tfimm'' [''TF_CPP_MIN_LOG_LEVEL'' \<mapsto> ''3''],
      CImport ''tensorflow'' [''TF_CPP_MIN_LOG_LEVEL'' \<mapsto> ''3''],
      CImport ''torch'' [''TF_CPP_MIN_LOG_LEVEL'' \<mapsto> ''3''],
      CCreateModel ''vit_tiny_patch16_224'' 5 True]"
    by (simp add: run_projections run_notebook_tree lib_offline_def lib_ok_def with_log_level_def)
  have l: "raised lib_offline (CCreateModel ''vit_tiny_patch16_224'' 5 True)
             = Some (LibraryError ''cannot fetch the weights'')"
    by (simp add: exception_of_def lib_offline_def lib_ok_def)
  from exception_halts_run [OF run_pair, of lib_offline Map.empty Map.empty] l
  show ?thesis unfolding c by simp
qed

text \<open>
  Claim C3. The testing step only prints the two outputs: a run that completes has
  printed exactly the output of the torch model (detached) and the output of the keras
  model. No comparison of the two is made: replacing the arrays the two models return by
  any others (\<open>f\<close> and \<open>g\<close> below) changes neither how the run ends, nor the calls made,
  nor the environment, nor what is saved, as long as printing does not depend on what is
  printed.
\<close>

theorem outputs_only_printed:
  assumes "\<And>a b. py_print L a = py_print L b"
    and "L' = L\<lparr>torch_forward := (\<lambda>m x. map_sum id (apfst f) (torch_forward L m x)),
                 keras_predict := (\<lambda>m a. map_sum id (apfst g) (keras_predict L m a))\<rparr>"
    and "run_notebook L env dsk = (r, s)"
    and "run_notebook L' env dsk = (r', s')"
  shows "(r = Inr () \<longrightarrow>
            (\<exists>tm x y tm' km a out km'.
               CForward tm x \<in> set (calls s) \<and> torch_forward L tm x = Inr (y, tm') \<and>
               CPredict km a \<in> set (calls s) \<and> keras_predict L km a = Inr (out, km') \<and>
               stdout s = [detach y, out])) \<and>
         r' = r \<and> disk s' = disk s \<and> environ s' = environ s \<and>
         map kind_of (calls s') = map kind_of (calls s)"
proof -
  note o = observe_run [OF assms(3)]
  note o' = observe_run [OF assms(4)]
  have 1: "r = Inr () \<longrightarrow>
            (\<exists>tm x y tm' km a out km'.
               CForward tm x \<in> set (calls s) \<and> torch_forward L tm x = Inr (y, tm') \<and>
               CPredict km a \<in> set (calls s) \<and> keras_predict L km a = Inr (out, km') \<and>
               stdout s = [detach y, out])"
    using o unfolding run_notebook_tree
    by (auto split: sum.splits prod.splits)
  obtain pr where p: "\<And>a. py_print L a = pr"
    using assms(1) by blast
  have 2: "(case observe (run_notebook L' env dsk) of
              (r, e, out, d, tm, km, cs) \<Rightarrow> (r, e, d, map kind_of cs))
         = (case observe (run_notebook L env dsk) of
              (r, e, out, d, tm, km, cs) \<Rightarrow> (r, e, d, map kind_of cs))"
    unfolding run_notebook_tree assms(2)
    by (simp add: p split: sum.splits prod.splits)
  show ?thesis
    using 1 2 unfolding o [symmetric] o' [symmetric] by simp
qed

theorem outputs_only_printed_witness:
  "fst (run_notebook
          (lib_ok\<lparr>torch_forward := (\<lambda>m x. map_sum id (apfst (\<lambda>y. logits y False))
                                             (torch_forward lib_ok m x)),
                  keras_predict := (\<lambda>m a. map_sum id (apfst (\<lambda>y. sample_tensor (storage y)))
                                             (keras_predict lib_ok m a))\<rparr>)
          Map.empty Map.empty) = Inr () \<and>
   stdout (snd (run_notebook lib_ok Map.empty Map.empty))
     = [detach (logits (sample_tensor of_nat) True), logits (sample_channels_last of_nat) False]"
proof -
  have pr: "\<And>a b. py_print lib_ok a = py_print lib_ok b"
    by (simp add: lib_ok_def)
  have ok: "fst (run_notebook lib_ok Map.empty Map.empty) = Inr ()"
    by (simp add: run_projections run_notebook_tree lib_ok_def with_log_level_def)
  have out: "stdout (snd (run_notebook lib_ok Map.empty Map.empty))
     = [detach (logits (sample_tensor of_nat) True), logits (sample_channels_last of_nat) False]"
    by (simp add: run_projections run_notebook_tree lib_ok_def with_log_level_def)
  from outputs_only_printed [where L = lib_ok and f = "\<lambda>y. logits y False"
         and g = "\<lambda>y. sample_tensor (storage y)" and env = Map.empty and dsk = Map.empty,
         OF pr refl run_pair run_pair] ok out
  show ?thesis by simp
qed

text \<open>
  Claim C4. The save step writes the converted model to the path made of \<^verbatim>\<open>keras_\<close> and
  the model name, \<^verbatim>\<open>keras_vit_tiny_patch16_224\<close>, in the format \<^verbatim>\<open>tf\<close>: a save call is
  made with that path and format only; the model it is given is the model that the
  conversion of the created torch model returned, as the one \<^verbatim>\<open>predict\<close> call on it left
  it; a run that completes has made the call and left that model at the path; and every
  other path of the disk is as it was.
\<close>

theorem saved_under_model_name:
  assumes "run_notebook L env dsk = (r, s)"
  shows "(\<forall>p. p \<noteq> ''keras_vit_tiny_patch16_224'' \<longrightarrow> disk s p = dsk p) \<and>
         (\<forall>km p f. CSave km p f \<in> set (calls s) \<longrightarrow>
             p = ''keras_vit_tiny_patch16_224'' \<and> f = ''tf'' \<and>
             (\<exists>pt km0 pt' a out i.
                timm_create_model L ''vit_tiny_patch16_224'' 5 True = Inr pt \<and>
                tfimm_load_timm_model L ''vit_tiny_patch16_224'' 5 pt = Inr (km0, pt') \<and>
                CPredict km0 a \<in> set (calls s) \<and> keras_predict L km0 a = Inr (out, i) \<and>
                km = KModel (k_weights km0) i) \<and>
             (r = Inr () \<longrightarrow> disk s p = Some (''tf'', km))) \<and>
         (r = Inr () \<longrightarrow>
             (\<exists>km. CSave km ''keras_vit_tiny_patch16_224'' ''tf'' \<in> set (calls s)))"
  using observe_run [OF assms] unfolding run_notebook_tree
  by (auto split: sum.splits prod.splits)

theorem saved_under_model_name_witness:
  "disk (snd (run_notebook lib_ok Map.empty Map.empty)) ''keras_vit_tiny_patch16_224''
     = Some (''tf'', KModel [1, 2, 3] 1) \<and>
   disk (snd (run_notebook lib_ok Map.empty Map.empty)) ''keras_model'' = None \<and>
   tfimm_load_timm_model lib_ok ''vit_tiny_patch16_224'' 5 (TModel [1, 2, 3] 0)
     = Inr (KModel [1, 2, 3] 0, TModel [1, 2, 3] 0)"
proof -
  have ok: "fst (run_notebook lib_ok Map.empty Map.empty) = Inr ()"
    by (simp add: run_projections run_notebook_tree lib_ok_def with_log_level_def)
  have sv: "CSave (KModel [1, 2, 3] 1) ''keras_vit_tiny_patch16_224'' ''tf''
              \<in> set (calls (snd (run_notebook lib_ok Map.empty Map.empty)))"
    by (simp add: run_projections run_notebook_tree lib_ok_def with_log_level_def)
  have ne: "''keras_model'' \<noteq> ''keras_vit_tiny_patch16_224''"
    by simp
  note t = saved_under_model_name [OF run_pair, of lib_ok Map.empty Map.empty]
  from t [THEN conjunct1, THEN spec, of "''keras_model''"] ne
  have a: "disk (snd (run_notebook lib_ok Map.empty Map.empty)) ''keras_model'' = None"
    by simp
  from t [THEN conjunct2, THEN conjunct1, THEN spec, THEN spec, THEN spec,
          of "KModel [1, 2, 3] 1" "''keras_vit_tiny_patch16_224''" "''tf''"] sv ok
  have b: "disk (snd (run_notebook lib_ok Map.empty Map.empty)) ''keras_vit_tiny_patch16_224''
     = Some (''tf'', KModel [1, 2, 3] 1)"
    by simp
  have c: "tfimm_load_timm_model lib_ok ''vit_tiny_patch16_224'' 5 (TModel [1, 2, 3] 0)
     = Inr (KModel [1, 2, 3] 0, TModel [1, 2, 3] 0)"
    by (simp add: lib_ok_def)
  from a b c show ?thesis by simp
qed

text \<open>
  Claim C5. The calls happen in one fixed order, whatever the libraries answer: the calls
  of a run are an initial part of the list \<open>notebook_order\<close> (imports, model creation,
  conversion, random input, inference on the torch model, inference on the keras model,
  the two prints, the save), a run that completes has made all of them, and once the
  save is called everything before it in the list has been called.
\<close>

theorem calls_in_notebook_order:
  assumes "run_notebook L env dsk = (r, s)"
  shows "prefix (map kind_of (calls s)) notebook_order \<and>
         (r = Inr () \<longrightarrow> map kind_of (calls s) = notebook_order) \<and>
         (KSave \<in> set (map kind_of (calls s)) \<longrightarrow> map kind_of (calls s) = notebook_order)"
  using observe_run [OF assms] unfolding run_notebook_tree
  by (auto simp: notebook_order_def split: sum.splits prod.splits)

theorem calls_in_notebook_order_witness:
  "map kind_of (calls (snd (run_notebook lib_ok Map.empty Map.empty))) = notebook_order \<and>
   prefix (map kind_of (calls (snd (run_notebook lib_offline Map.empty Map.empty))))
     notebook_order"
proof -
  have ok: "fst (run_notebook lib_ok Map.empty Map.empty) = Inr ()"
    by (simp add: run_projections run_notebook_tree lib_ok_def with_log_level_def)
  from calls_in_notebook_order [OF run_pair, of lib_ok Map.empty Map.empty]
       calls_in_notebook_order [OF run_pair, of lib_offline Map.empty Map.empty] ok
  show ?thesis by simp
qed

text \<open>
  Claim C6. The call creating the pretrained model receives the model name
  \<^verbatim>\<open>vit_tiny_patch16_224\<close>, the class count 5 and \<^verbatim>\<open>pretrained=True\<close>; the call converting
  it receives the same name, the same class count, and the model that the creation call
  returned.
\<close>

theorem create_and_convert_arguments:
  assumes "run_notebook L env dsk = (r, s)"
  shows "(\<forall>name n p. CCreateModel name n p \<in> set (calls s) \<longrightarrow>
             name = ''vit_tiny_patch16_224'' \<and> n = 5 \<and> p = True) \<and>
         (\<forall>name n pt. CLoadTimmModel name n pt \<in> set (calls s) \<longrightarrow>
             name = ''vit_tiny_patch16_224'' \<and> n = 5 \<and>
             timm_create_model L ''vit_tiny_patch16_224'' 5 True = Inr pt)"
  using observe_run [OF assms] unfolding run_notebook_tree
  by (auto split: sum.splits prod.splits)

theorem create_and_convert_arguments_witness:
  "CCreateModel ''vit_tiny_patch16_224'' 5 True
     \<in> set (calls (snd (run_notebook lib_ok Map.empty Map.empty))) \<and>
   CLoadTimmModel ''vit_tiny_patch16_224'' 5 (TModel [1, 2, 3] 0)
     \<in> set (calls (snd (run_notebook lib_ok Map.empty Map.empty))) \<and>
   timm_create_model lib_ok ''vit_tiny_patch16_224'' 5 True = Inr (TModel [1, 2, 3] 0)"
proof -
  have c: "CCreateModel ''vit_tiny_patch16_224'' 5 True
             \<in> set (calls (snd (run_notebook lib_ok Map.empty Map.empty)))"
    by (simp add: run_projections run_notebook_tree lib_ok_def with_log_level_def)
  have l: "CLoadTimmModel ''vit_tiny_patch16_224'' 5 (TModel [1, 2, 3] 0)
             \<in> set (calls (snd (run_notebook lib_ok Map.empty Map.empty)))"
    by (simp add: run_projections run_notebook_tree lib_ok_def with_log_level_def)
  from create_and_convert_arguments [OF run_pair, of lib_ok Map.empty Map.empty] c l
  show ?thesis by blast
qed

text \<open>
  Claim C7, as the code has it. The notebook's own statements write one environment
  variable: the only assignment made is of \<^verbatim>\<open>3\<close> to \<^verbatim>\<open>TF_CPP_MIN_LOG_LEVEL\<close>, it is made
  at most once, and that variable ends with its initial value or with \<^verbatim>\<open>3\<close> (with \<^verbatim>\<open>3\<close>
  after a run that completes). Any other variable whose value has changed was set by the
  code of a module that the notebook imported. When the imported modules set nothing,
  every other variable is as it was, and after a run that completes the environment is
  the initial one with \<^verbatim>\<open>TF_CPP_MIN_LOG_LEVEL\<close> set to \<^verbatim>\<open>3\<close>.
\<close>

theorem notebook_assigns_only_log_level:
  assumes "run_notebook L env dsk = (r, s)"
  shows "(\<forall>k v. CSetEnv k v \<in> set (calls s) \<longrightarrow> k = ''TF_CPP_MIN_LOG_LEVEL'' \<and> v = ''3'') \<and>
         length (filter (\<lambda>c. kind_of c = KSetEnv) (calls s)) \<le> 1 \<and>
         (environ s ''TF_CPP_MIN_LOG_LEVEL'' = env ''TF_CPP_MIN_LOG_LEVEL'' \<or>
          environ s ''TF_CPP_MIN_LOG_LEVEL'' = Some ''3'') \<and>
         (r = Inr () \<longrightarrow> environ s ''TF_CPP_MIN_LOG_LEVEL'' = Some ''3'') \<and>
         (\<forall>k. k \<noteq> ''TF_CPP_MIN_LOG_LEVEL'' \<and> environ s k \<noteq> env k \<longrightarrow>
            (\<exists>m e w. CImport m e \<in> set (calls s) \<and> import_module L m e = Inr w \<and>
                     w k = environ s k)) \<and>
         ((\<forall>m e w. import_module L m e = Inr w \<longrightarrow> w = Map.empty) \<longrightarrow>
            (\<forall>k. k \<noteq> ''TF_CPP_MIN_LOG_LEVEL'' \<longrightarrow> environ s k = env k) \<and>
            (r = Inr () \<longrightarrow> environ s = env(''TF_CPP_MIN_LOG_LEVEL'' \<mapsto> ''3'')))"
proof -
  note o = observe_run [OF assms]
  have 1: "(\<forall>k v. CSetEnv k v \<in> set (calls s) \<longrightarrow> k = ''TF_CPP_MIN_LOG_LEVEL'' \<and> v = ''3'') \<and>
         length (filter (\<lambda>c. kind_of c = KSetEnv) (calls s)) \<le> 1 \<and>
         (environ s ''TF_CPP_MIN_LOG_LEVEL'' = env ''TF_CPP_MIN_LOG_LEVEL'' \<or>
          environ s ''TF_CPP_MIN_LOG_LEVEL'' = Some ''3'') \<and>
         (r = Inr () \<longrightarrow> environ s ''TF_CPP_MIN_LOG_LEVEL'' = Some ''3'')"
    using o unfolding run_notebook_tree
    by (auto split: sum.splits prod.splits)
  have 2: "\<exists>m e w. CImport m e \<in> set (calls s) \<and> import_module L m e = Inr w \<and>
                     w k = environ s k"
    if k: "k \<noteq> ''TF_CPP_MIN_LOG_LEVEL''" and ne: "environ s k \<noteq> env k" for k
  proof -
    note e = environ_replay [OF assms]
    from fold_env_step_writer [OF k, of L "calls s" env] ne 1 k
    show ?thesis unfolding e by blast
  qed
  have 3: "(\<forall>k. k \<noteq> ''TF_CPP_MIN_LOG_LEVEL'' \<longrightarrow> environ s k = env k) \<and>
            (r = Inr () \<longrightarrow> environ s = env(''TF_CPP_MIN_LOG_LEVEL'' \<mapsto> ''3''))"
    if "\<forall>m e w. import_module L m e = Inr w \<longrightarrow> w = Map.empty"
  proof -
    have w: "import_module L m e = Inr w \<Longrightarrow> w = Map.empty" for m e w
      using that by blast
    show ?thesis
      using o unfolding run_notebook_tree
      by (auto simp: with_log_level_def dest!: w split: sum.splits prod.splits)
  qed
  from 1 2 3 show ?thesis by blast
qed

theorem notebook_assigns_only_log_level_witness:
  "CImport ''tensorflow'' [''TF_CPP_MIN_LOG_LEVEL'' \<mapsto> ''3'']
     \<in> set (calls (snd (run_notebook lib_tf2 no_variables no_files))) \<and>
   import_module lib_tf2 ''tensorflow'' [''TF_CPP_MIN_LOG_LEVEL'' \<mapsto> ''3'']
     = Inr [''TF2_BEHAVIOR'' \<mapsto> ''1''] \<and>
   CSetEnv ''TF_CPP_MIN_LOG_LEVEL'' ''3''
     \<in> set (calls (snd (run_notebook lib_tf2 no_variables no_files))) \<and>
   environ (snd (run_notebook lib_tf2 no_variables no_files)) ''TF_CPP_MIN_LOG_LEVEL'' = Some ''3'' \<and>
   environ (snd (run_notebook lib_ok [''HOME'' \<mapsto> ''/root''] Map.empty))
     = [''HOME'' \<mapsto> ''/root'', ''TF_CPP_MIN_LOG_LEVEL'' \<mapsto> ''3'']"
proof -
  have ok2: "fst (run_notebook lib_tf2 no_variables no_files) = Inr ()"
    by (simp add: run_projections run_notebook_tree lib_tf2_def lib_ok_def)
  have i: "CImport ''tensorflow'' [''TF_CPP_MIN_LOG_LEVEL'' \<mapsto> ''3'']
     \<in> set (calls (snd (run_notebook lib_tf2 no_variables no_files)))"
    by (simp add: run_projections run_notebook_tree lib_tf2_def lib_ok_def with_log_level_def
          no_variables_def)
  have c: "CSetEnv ''TF_CPP_MIN_LOG_LEVEL'' ''3''
     \<in> set (calls (snd (run_notebook lib_tf2 no_variables no_files)))"
    by (simp add: run_projections run_notebook_tree lib_tf2_def lib_ok_def)
  have w: "import_module lib_tf2 ''tensorflow'' [''TF_CPP_MIN_LOG_LEVEL'' \<mapsto> ''3'']
     = Inr [''TF2_BEHAVIOR'' \<mapsto> ''1'']"
    by (simp add: lib_tf2_def lib_ok_def)
  note t2 = notebook_assigns_only_log_level [OF run_pair, of lib_tf2 no_variables no_files]
  from t2 [THEN conjunct2, THEN conjunct2, THEN conjunct2, THEN conjunct1] ok2
  have k: "environ (snd (run_notebook lib_tf2 no_variables no_files)) ''TF_CPP_MIN_LOG_LEVEL''
     = Some ''3''"
    by simp
  have ok: "fst (run_notebook lib_ok [''HOME'' \<mapsto> ''/root''] Map.empty) = Inr ()"
    by (simp add: run_projections run_notebook_tree lib_ok_def)
  have e: "\<forall>m e w. import_module lib_ok m e = Inr w \<longrightarrow> w = Map.empty"
    by (auto simp: lib_ok_def)
  note t = notebook_assigns_only_log_level
             [OF run_pair, of lib_ok "[''HOME'' \<mapsto> ''/root'']" Map.empty]
  from t [THEN conjunct2, THEN conjunct2, THEN conjunct2, THEN conjunct2, THEN conjunct2,
          THEN mp, OF e, THEN conjunct2] ok
  have "environ (snd (run_notebook lib_ok [''HOME'' \<mapsto> ''/root''] Map.empty))
     = [''HOME'' \<mapsto> ''/root'', ''TF_CPP_MIN_LOG_LEVEL'' \<mapsto> ''3'']"
    by simp
  with i w c k show ?thesis by simp
qed

text \<open>
  Claim C7 as the specification states it, that no environment variable other than
  \<^verbatim>\<open>TF_CPP_MIN_LOG_LEVEL\<close> is written by any operation of the notebook, fails: the
  notebook's import of tensorflow runs tensorflow's code, which sets \<^verbatim>\<open>TF2_BEHAVIOR\<close>.
  Started with no variable at all, the run below completes and ends with
  \<^verbatim>\<open>TF2_BEHAVIOR\<close> set.
\<close>

theorem import_sets_another_variable:
  "fst (run_notebook lib_tf2 no_variables no_files) = Inr () \<and>
   ''TF2_BEHAVIOR'' \<noteq> ''TF_CPP_MIN_LOG_LEVEL'' \<and>
   no_variables ''TF2_BEHAVIOR'' = None \<and>
   environ (snd (run_notebook lib_tf2 no_variables no_files)) ''TF2_BEHAVIOR'' = Some ''1''"
  by (simp add: run_projections run_notebook_tree lib_tf2_def lib_ok_def no_variables_def
        module_writes_def with_log_level_def)

text \<open>
  Claim C8. The publishing workflow is triggered by \<^verbatim>\<open>workflow_dispatch\<close> and by no other
  event. Whatever fails or not, whatever the conditions of its steps evaluate to and
  whatever the token is, every upload its job makes is to
  \<^verbatim>\<open>https://test.pypi.org/legacy/\<close>, so none is to the production registry. Every command
  of the file is described, except \<^verbatim>\<open>poetry config\<close> when the token begins a word with a
  dash. When nothing fails and the token is one word, the job completes and uploads the
  built package once, there; when the token is empty, the job fails before it uploads.
\<close>

theorem publish_manual_and_to_test_registry:
  "on_events publish_test = [''workflow_dispatch''] \<and>
   triggered_by publish_test ev = (ev = ''workflow_dispatch'') \<and>
   jobs publish_test = [publish_job] \<and>
   set (uploads (snd (exec_job R publish_job))) \<subseteq> {''https://test.pypi.org/legacy/''} \<and>
   pypi_production \<notin> set (uploads (snd (exec_job R publish_job))) \<and>
   (fst (exec_job R publish_job) = Unmodelled \<longrightarrow>
      (\<exists>a \<in> set (words_of (secret R ''TEST_PYPI_TOKEN'')). is_option a)) \<and>
   ((\<forall>a. \<not> action_fails R a) \<and> (\<forall>ws. \<not> command_fails R ws) \<and>
    words_of (secret R ''TEST_PYPI_TOKEN'') = [secret R ''TEST_PYPI_TOKEN''] \<and>
    \<not> is_option (secret R ''TEST_PYPI_TOKEN'') \<longrightarrow>
      fst (exec_job R publish_job) = Completed \<and>
      uploads (snd (exec_job R publish_job)) = [''https://test.pypi.org/legacy/'']) \<and>
   (words_of (secret R ''TEST_PYPI_TOKEN'') = [] \<longrightarrow>
      fst (exec_job R publish_job) = Failed \<and> uploads (snd (exec_job R publish_job)) = [])"
proof -
  have 1: "on_events publish_test = [''workflow_dispatch''] \<and>
           triggered_by publish_test ev = (ev = ''workflow_dispatch'') \<and>
           jobs publish_test = [publish_job]"
    by (simp add: publish_test_def triggered_by_def)
  obtain v sh' where p: "exec_step R step_publish fresh_shell = (v, sh')"
    by (cases "exec_step R step_publish fresh_shell")
  note u = exec_publish_uploads [OF p]
  have f: "uploads fresh_shell = []"
    by (simp add: fresh_shell_def)
  have 2: "set (uploads (snd (exec_job R publish_job))) \<subseteq> {''https://test.pypi.org/legacy/''} \<and>
           pypi_production \<notin> set (uploads (snd (exec_job R publish_job))) \<and>
           (fst (exec_job R publish_job) = Unmodelled \<longrightarrow>
              (\<exists>a \<in> set (words_of (secret R ''TEST_PYPI_TOKEN'')). is_option a)) \<and>
           (words_of (secret R ''TEST_PYPI_TOKEN'') = [] \<longrightarrow>
              fst (exec_job R publish_job) = Failed \<and> uploads (snd (exec_job R publish_job)) = [])"
    using u unfolding exec_job_publish_job p f
    by (auto simp: pypi_production_def fresh_shell_def)
  have 3: "fst (exec_job R publish_job) = Completed \<and>
           uploads (snd (exec_job R publish_job)) = [''https://test.pypi.org/legacy/'']"
    if "(\<forall>a. \<not> action_fails R a) \<and> (\<forall>ws. \<not> command_fails R ws) \<and>
        words_of (secret R ''TEST_PYPI_TOKEN'') = [secret R ''TEST_PYPI_TOKEN''] \<and>
        \<not> is_option (secret R ''TEST_PYPI_TOKEN'')"
    using that exec_publish_ok [of R fresh_shell] unfolding exec_job_publish_job
    by (simp add: f)
  from 1 2 3 show ?thesis by blast
qed

theorem publish_manual_and_to_test_registry_witness:
  "\<not> triggered_by publish_test ''push'' \<and>
   fst (exec_job runner_ok publish_job) = Completed \<and>
   uploads (snd (exec_job runner_ok publish_job)) = [''https://test.pypi.org/legacy/''] \<and>
   fst (exec_job runner_no_token publish_job) = Failed \<and>
   uploads (snd (exec_job runner_no_token publish_job)) = []"
proof -
  have w: "words_of ''pypi-AgENdGVzdC5weXBp'' = [''pypi-AgENdGVzdC5weXBp'']"
    by (simp add: words_of_def)
  have h: "(\<forall>a. \<not> action_fails runner_ok a) \<and> (\<forall>ws. \<not> command_fails runner_ok ws) \<and>
           words_of (secret runner_ok ''TEST_PYPI_TOKEN'') = [secret runner_ok ''TEST_PYPI_TOKEN''] \<and>
           \<not> is_option (secret runner_ok ''TEST_PYPI_TOKEN'')"
    by (simp add: runner_ok_def w is_option_def)
  have w0: "words_of (secret runner_no_token ''TEST_PYPI_TOKEN'') = []"
    by (simp add: runner_no_token_def runner_ok_def words_of_def)
  note ok = publish_manual_and_to_test_registry [of "''push''" runner_ok]
  note no = publish_manual_and_to_test_registry [of "''push''" runner_no_token]
  from ok [THEN conjunct2, THEN conjunct1]
       ok [THEN conjunct2, THEN conjunct2, THEN conjunct2, THEN conjunct2, THEN conjunct2,
           THEN conjunct2, THEN conjunct1, THEN mp, OF h]
       no [THEN conjunct2, THEN conjunct2, THEN conjunct2, THEN conjunct2, THEN conjunct2,
           THEN conjunct2, THEN conjunct2, THEN mp, OF w0]
  show ?thesis by simp
qed

text \<open>
  Claim C9. \<^verbatim>\<open>TF_CPP_MIN_LOG_LEVEL\<close> is assigned before tensorflow is imported: when the
  import of tensorflow is reached, the assignment is among the calls made before the
  first import of tensorflow, the environment that import runs in has the variable set
  to \<^verbatim>\<open>3\<close>, and tensorflow is imported once. The only import that runs without the
  variable set is that of \<^verbatim>\<open>os\<close>, so a module that loads tensorflow itself (tfimm) is
  imported after the assignment too.
\<close>

theorem log_level_set_before_tensorflow:
  assumes "run_notebook L env dsk = (r, s)"
    and "CImport ''tensorflow'' e \<in> set (calls s)"
  shows "e ''TF_CPP_MIN_LOG_LEVEL'' = Some ''3'' \<and>
         CSetEnv ''TF_CPP_MIN_LOG_LEVEL'' ''3''
           \<in> set (takeWhile (\<lambda>c. \<not> imports_module ''tensorflow'' c) (calls s)) \<and>
         length (filter (imports_module ''tensorflow'') (calls s)) = 1 \<and>
         (\<forall>m e'. CImport m e' \<in> set (calls s) \<longrightarrow>
            m = ''os'' \<or> e' ''TF_CPP_MIN_LOG_LEVEL'' = Some ''3'')"
  using observe_run [OF assms(1)] assms(2) unfolding run_notebook_tree
  by (auto split: sum.splits prod.splits)

theorem log_level_set_before_tensorflow_witness:
  "CImport ''tensorflow'' [''TF_CPP_MIN_LOG_LEVEL'' \<mapsto> ''3'']
     \<in> set (calls (snd (run_notebook lib_ok Map.empty Map.empty))) \<and>
   CSetEnv ''TF_CPP_MIN_LOG_LEVEL'' ''3''
     \<in> set (takeWhile (\<lambda>c. \<not> imports_module ''tensorflow'' c)
              (calls (snd (run_notebook lib_ok Map.empty Map.empty))))"
proof -
  have i: "CImport ''tensorflow'' [''TF_CPP_MIN_LOG_LEVEL'' \<mapsto> ''3'']
     \<in> set (calls (snd (run_notebook lib_ok Map.empty Map.empty)))"
    by (simp add: run_projections run_notebook_tree lib_ok_def with_log_level_def)
  note t = log_level_set_before_tensorflow [OF run_pair i]
  from t [THEN conjunct2, THEN conjunct1] i
  show ?thesis by simp
qed



end
